theory Spec2Isabelle
  imports Complex_Main
begin

section \<open>The order bot of \<open>Main.py\<close>: catalog, cart, order ledger and handlers\<close>

text \<open>
  The program is one Python module: a text-file product catalog (\<open>ProductRepository\<close>),
  an SQLite database with a user table and a cart table (\<open>DatabaseManager\<close>), an
  Excel workbook used as an order ledger (\<open>ExcelExporter\<close>) and the handlers of a chat
  bot that drive the three. Each function below carries the name of the source function
  it embeds. The stores are explicit values: the products file, the database and the
  workbook are arguments and results.

  Python's \<open>str\<close> is modelled by \<open>string\<close>; a character stands for a code point
  below 256. Python's \<open>int\<close> is \<open>int\<close>. A price is a Python \<open>float\<close>: its
  type is the parameter \<open>'p\<close>, and the builtins \<open>float()\<close> and \<open>int()\<close> are the
  parameters \<open>float_of\<close> and \<open>int_of\<close> (\<open>None\<close> where the builtin raises
  \<open>ValueError\<close>), so that every theorem holds for the real builtins whatever strings they
  accept.
\<close>

subsection \<open>String methods\<close>

text \<open>\<open>str.isspace\<close> on the code points below 256.\<close>

definition is_space :: "char \<Rightarrow> bool" where
  "is_space c = (of_char c \<in> {9, 10, 11, 12, 13, 28, 29, 30, 31, 32, 133, 160 :: nat})"

text \<open>\<open>s.strip()\<close>\<close>

definition str_strip :: "string \<Rightarrow> string" where
  "str_strip s = rev (dropWhile is_space (rev (dropWhile is_space s)))"

text \<open>\<open>s.split(sep, maxsplit)\<close> for a one-character separator.\<close>

fun str_split_max :: "char \<Rightarrow> nat \<Rightarrow> string \<Rightarrow> string list" where
  "str_split_max sep 0 s = [s]"
| "str_split_max sep (Suc n) s =
     (if sep \<in> set s
      then takeWhile (\<lambda>c. c \<noteq> sep) s #
           str_split_max sep n (tl (dropWhile (\<lambda>c. c \<noteq> sep) s))
      else [s])"

text \<open>\<open>s.split(sep)\<close> for a one-character separator: every occurrence splits.\<close>

fun str_split :: "char \<Rightarrow> string \<Rightarrow> string list" where
  "str_split sep [] = [[]]"
| "str_split sep (c # cs) =
     (if c = sep then [] # str_split sep cs
      else (c # hd (str_split sep cs)) # tl (str_split sep cs))"

text \<open>\<open>s.split()\<close>: the maximal runs of characters that are not whitespace.\<close>

fun str_words :: "string \<Rightarrow> string \<Rightarrow> string list" where
  "str_words w [] = (if w = [] then [] else [w])"
| "str_words w (c # cs) =
     (if is_space c then (if w = [] then str_words [] cs else w # str_words [] cs)
      else str_words (w @ [c]) cs)"

text \<open>\<open>' '.join(parts)\<close>\<close>

fun str_join :: "string list \<Rightarrow> string" where
  "str_join [] = []"
| "str_join [w] = w"
| "str_join (w # ws) = w @ '' '' @ str_join ws"

text \<open>\<open>s.startswith(prefix)\<close>\<close>

definition startswith :: "string \<Rightarrow> string \<Rightarrow> bool" where
  "startswith s pre = (take (length pre) s = pre)"

text \<open>
  Plain decimal numerals, to run the model on concrete inputs: \<open>plain_int\<close> reads an
  optional minus sign and digits, \<open>plain_float\<close> digits, optionally a point and more
  digits. On these spellings they agree with \<open>int()\<close> and with the decimal value that
  \<open>float()\<close> reads; every other string is refused here, while Python accepts some more.
\<close>

definition digit_of :: "char \<Rightarrow> nat option" where
  "digit_of c = (let n = (of_char c :: nat) in if 48 \<le> n \<and> n \<le> 57 then Some (n - 48) else None)"

fun digits_of :: "nat \<Rightarrow> string \<Rightarrow> nat option" where
  "digits_of acc [] = Some acc"
| "digits_of acc (c # cs) =
     (case digit_of c of None \<Rightarrow> None | Some d \<Rightarrow> digits_of (10 * acc + d) cs)"

definition plain_nat :: "string \<Rightarrow> nat option" where
  "plain_nat s = (if s = [] then None else digits_of 0 s)"

definition plain_int :: "string \<Rightarrow> int option" where
  "plain_int s =
     (case s of
        [] \<Rightarrow> None
      | c # cs \<Rightarrow>
          if c = CHR ''-'' then map_option (\<lambda>n. - int n) (plain_nat cs)
          else map_option int (plain_nat s))"

definition plain_float :: "string \<Rightarrow> rat option" where
  "plain_float s =
     (let whole = takeWhile (\<lambda>c. c \<noteq> CHR ''.'') s;
          rest = dropWhile (\<lambda>c. c \<noteq> CHR ''.'') s
      in case plain_nat whole of
           None \<Rightarrow> None
         | Some w \<Rightarrow>
             (if rest = [] then Some (of_nat w)
              else case plain_nat (tl rest) of
                     None \<Rightarrow> None
                   | Some f \<Rightarrow> Some (of_nat w + of_nat f / 10 ^ length (tl rest))))"

subsection \<open>Errors\<close>

text \<open>The exceptions the modelled code can raise.\<close>

datatype py_error = ValueError | IndexError | TypeError | OSError

subsection \<open>ProductRepository\<close>

record 'p product =
  pid :: int
  name :: string
  price :: 'p
  description :: string

text \<open>\<open>enumerate(xs, start)\<close>\<close>

fun py_enumerate :: "'a list \<Rightarrow> int \<Rightarrow> (int \<times> 'a) list" where
  "py_enumerate [] start = []"
| "py_enumerate (x # xs) start = (start, x) # py_enumerate xs (start + 1)"

text \<open>
  The loop of \<open>get_all_products\<close> over the pairs of \<open>enumerate(f, 1)\<close>, the last
  argument being the list \<open>products\<close>. The \<open>try\<close> encloses the whole loop: a line
  whose unpacking or whose \<open>float()\<close> raises ends the loop, and the \<open>except\<close> clause
  returns the products appended so far. The first component of the result is the
  exception that was caught, if any.
\<close>

fun products_loop ::
  "(string \<Rightarrow> 'p option) \<Rightarrow> (int \<times> string) list \<Rightarrow> 'p product list
     \<Rightarrow> py_error option \<times> 'p product list" where
  "products_loop float_of [] products = (None, products)"
| "products_loop float_of ((idx, raw) # rest) products =
     (let line = str_strip raw in
      if line \<noteq> [] \<and> CHR ''|'' \<in> set line then
        (case str_split_max (CHR ''|'') 2 line of
           [nm, pr, ds] \<Rightarrow>
             (case float_of (str_strip pr) of
                None \<Rightarrow> (Some ValueError, products)
              | Some v \<Rightarrow>
                  products_loop float_of rest
                    (products @
                       [\<lparr>pid = idx, name = str_strip nm, price = v,
                         description = str_strip ds\<rparr>]))
         | _ \<Rightarrow> (Some ValueError, products))
      else products_loop float_of rest products)"

text \<open>
  The products file is \<open>None\<close> when \<open>open\<close> raises, else the lines the file iterator
  yields.
\<close>

type_synonym products_file = "string list option"

definition get_all_products :: "(string \<Rightarrow> 'p option) \<Rightarrow> products_file \<Rightarrow> 'p product list" where
  "get_all_products float_of file =
     (case file of
        None \<Rightarrow> []
      | Some lines \<Rightarrow> snd (products_loop float_of (py_enumerate lines 1) []))"

definition get_product_by_id ::
  "(string \<Rightarrow> 'p option) \<Rightarrow> products_file \<Rightarrow> int \<Rightarrow> 'p product option" where
  "get_product_by_id float_of file product_id =
     find (\<lambda>p. pid p = product_id) (get_all_products float_of file)"

subsection \<open>DatabaseManager\<close>

text \<open>
  The table \<open>cart_items\<close> in row order, with the three columns the program writes and
  reads (\<open>id\<close> and \<open>added_at\<close> are filled by SQLite and never selected); the table
  \<open>users\<close> is keyed by its primary key.
\<close>

record cart_item =
  user_id :: int
  product_id :: int
  quantity :: int

record database =
  users :: "int \<rightharpoonup> string \<times> string"
  cart_items :: "cart_item list"

definition add_user :: "database \<Rightarrow> int \<Rightarrow> string \<Rightarrow> string \<Rightarrow> database" where
  "add_user db uid first_name last_name = db\<lparr>users := (users db)(uid \<mapsto> (first_name, last_name))\<rparr>"

definition get_user :: "database \<Rightarrow> int \<Rightarrow> (string \<times> string) option" where
  "get_user db uid = users db uid"

definition cart_key :: "int \<Rightarrow> int \<Rightarrow> cart_item \<Rightarrow> bool" where
  "cart_key uid p r = (user_id r = uid \<and> product_id r = p)"

definition add_to_cart :: "database \<Rightarrow> int \<Rightarrow> int \<Rightarrow> int \<Rightarrow> database" where
  "add_to_cart db uid p q =
     (case find (cart_key uid p) (cart_items db) of
        Some existing \<Rightarrow>
          db\<lparr>cart_items :=
               map (\<lambda>r. if cart_key uid p r then r\<lparr>quantity := quantity existing + q\<rparr> else r)
                 (cart_items db)\<rparr>
      | None \<Rightarrow>
          db\<lparr>cart_items := cart_items db @ [\<lparr>user_id = uid, product_id = p, quantity = q\<rparr>]\<rparr>)"

definition cart_line ::
  "'p product list \<Rightarrow> int \<times> int \<Rightarrow> (int \<times> string \<times> 'p \<times> int) list" where
  "cart_line products row =
     (case find (\<lambda>p. pid p = fst row) products of
        None \<Rightarrow> []
      | Some p \<Rightarrow> [(pid p, name p, price p, snd row)])"

definition get_cart_items ::
  "(string \<Rightarrow> 'p option) \<Rightarrow> products_file \<Rightarrow> database \<Rightarrow> int
     \<Rightarrow> (int \<times> string \<times> 'p \<times> int) list" where
  "get_cart_items float_of file db uid =
     (let cart_data = map (\<lambda>r. (product_id r, quantity r))
                        (filter (\<lambda>r. user_id r = uid) (cart_items db));
          products = get_all_products float_of file
      in concat (map (cart_line products) cart_data))"

definition clear_cart :: "database \<Rightarrow> int \<Rightarrow> database" where
  "clear_cart db uid = db\<lparr>cart_items := filter (\<lambda>r. user_id r \<noteq> uid) (cart_items db)\<rparr>"

subsection \<open>ExcelExporter\<close>

text \<open>
  A cell holds a string or an integer (the two kinds of value the program writes); an
  empty cell is \<open>None\<close>. A worksheet is the list of its rows, the header first. The
  workbook file is absent, or a file \<open>load_workbook\<close> refuses, or a workbook.
\<close>

datatype cell = Str string | Num int

type_synonym row = "cell option list"

type_synonym sheet = "row list"

datatype xlsx = Absent | Unreadable | Workbook sheet

text \<open>
  What the outside world answers during one handler call: the clock reading formatted by
  \<open>strftime\<close>, and whether \<open>wb.save\<close> succeeds.
\<close>

record world =
  now :: string
  save_ok :: bool

text \<open>\<open>row_data\<close> of \<open>add_order\<close>: date, name, then name and quantity of every item.\<close>

definition order_row :: "string \<Rightarrow> string \<Rightarrow> (int \<times> string \<times> 'p \<times> int) list \<Rightarrow> row" where
  "order_row stamp full_name cart =
     Some (Str stamp) # Some (Str full_name) #
     concat (map (\<lambda>(item_id, nm, pr, q). [Some (Str nm), Some (Num q)]) cart)"

text \<open>The body of the \<open>try\<close> of \<open>add_order\<close>: load, append one row, save.\<close>

definition write_order ::
  "world \<Rightarrow> xlsx \<Rightarrow> string \<Rightarrow> (int \<times> string \<times> 'p \<times> int) list \<Rightarrow> py_error + xlsx" where
  "write_order w file full_name cart =
     (case file of
        Workbook ws \<Rightarrow>
          if save_ok w then Inr (Workbook (ws @ [order_row (now w) full_name cart]))
          else Inl OSError
      | _ \<Rightarrow> Inl OSError)"

definition add_order ::
  "world \<Rightarrow> xlsx \<Rightarrow> string \<Rightarrow> (int \<times> string \<times> 'p \<times> int) list \<Rightarrow> bool \<times> xlsx" where
  "add_order w file full_name cart =
     (case write_order w file full_name cart of
        Inr file' \<Rightarrow> (True, file')
      | Inl e \<Rightarrow> (False, file))"

text \<open>Python's truth value of a cell value.\<close>

fun truthy :: "cell option \<Rightarrow> bool" where
  "truthy None = False"
| "truthy (Some (Str s)) = (s \<noteq> [])"
| "truthy (Some (Num n)) = (n \<noteq> 0)"

text \<open>
  \<open>ws.iter_rows(min_row=2, values_only=True)\<close>: the rows after the first, each padded
  with empty cells to the width of the sheet.
\<close>

definition max_column :: "sheet \<Rightarrow> nat" where
  "max_column ws = foldr (\<lambda>r m. max (length r) m) ws 0"

definition iter_rows :: "sheet \<Rightarrow> row list" where
  "iter_rows ws = map (\<lambda>r. r @ replicate (max_column ws - length r) None) (drop 1 ws)"

text \<open>An order as \<open>get_user_orders\<close> returns it; an item is (product, quantity).\<close>

record order =
  date :: "cell option"
  items :: "(cell \<times> cell) list"

text \<open>
  The inner loop over \<open>range(2, len(row), 2)\<close>, on the cells from index 2: a last
  unpaired cell that is true makes \<open>row[i+1]\<close> raise.
\<close>

fun row_items :: "row \<Rightarrow> (cell \<times> cell) list \<Rightarrow> py_error + (cell \<times> cell) list" where
  "row_items [] acc = Inr acc"
| "row_items [c] acc = (if truthy c then Inl IndexError else Inr acc)"
| "row_items (c # d # rest) acc =
     (case (c, d) of
        (Some x, Some y) \<Rightarrow>
          if truthy c \<and> truthy d then row_items rest (acc @ [(x, y)]) else row_items rest acc
      | _ \<Rightarrow> row_items rest acc)"

text \<open>The loop over the rows, \<open>orders\<close> being the list built so far.\<close>

fun orders_loop :: "string \<Rightarrow> row list \<Rightarrow> order list \<Rightarrow> py_error + order list" where
  "orders_loop full_name [] orders = Inr orders"
| "orders_loop full_name ([] # rest) orders = orders_loop full_name rest orders"
| "orders_loop full_name ([c] # rest) orders = Inl IndexError"
| "orders_loop full_name ((c0 # c1 # cells) # rest) orders =
     (if \<not> truthy c1 then orders_loop full_name rest orders
      else if c1 = Some (Str full_name) then
        (case row_items cells [] of
           Inl e \<Rightarrow> Inl e
         | Inr its \<Rightarrow> orders_loop full_name rest (orders @ [\<lparr>date = c0, items = its\<rparr>]))
      else orders_loop full_name rest orders)"

text \<open>The body of the \<open>try\<close> of \<open>get_user_orders\<close>.\<close>

definition read_orders :: "string \<Rightarrow> xlsx \<Rightarrow> py_error + order list" where
  "read_orders full_name file =
     (case file of
        Absent \<Rightarrow> Inr []
      | Unreadable \<Rightarrow> Inl OSError
      | Workbook ws \<Rightarrow> orders_loop full_name (iter_rows ws) [])"

definition get_user_orders :: "string \<Rightarrow> xlsx \<Rightarrow> order list" where
  "get_user_orders full_name file =
     (case read_orders full_name file of Inl e \<Rightarrow> [] | Inr orders \<Rightarrow> orders)"

subsection \<open>The state of the bot and its views\<close>

text \<open>
  The module-level objects \<open>db\<close>, \<open>product_repo\<close> and \<open>exporter\<close> with the files
  behind them, and \<open>context.user_data\<close>: one dictionary for every user id.
\<close>

record state =
  db :: database
  products :: products_file
  orders :: xlsx
  user_data :: "int \<Rightarrow> (string \<rightharpoonup> int)"

text \<open>The states a conversation handler returns.\<close>

datatype conv = GET_NAME | MAIN_MENU | END_CONVERSATION

text \<open>
  A line of an order in the orders view: product, quantity, and the price of the catalog
  product of that name when there is one. The pagination row of the keyboard:
  \<open>PrevPage n\<close> and \<open>NextPage n\<close> carry the callback data \<open>orders_page_n\<close>,
  \<open>CurrentPage k t\<close> the label \<open>k/t\<close>.
\<close>

type_synonym 'p order_line = "cell \<times> cell \<times> 'p option"

datatype page_button = PrevPage int | CurrentPage int int | NextPage int

text \<open>
  A view is one message sent or edited: the constructor names the fixed text and keyboard
  of the source, the arguments are the values the source formats into them. Texts are not
  formatted and prices are not multiplied: both are floating-point work outside the model.
\<close>

datatype 'p view =
    NamePrompt
  | NameInvalid
  | RegistrationDone string
  | MainMenu string
  | UserNotFound
  | CatalogEmpty
  | CatalogView "'p product list"
  | ProductNotFound
  | ProductDetails "'p product"
  | ProductNotSelected
  | AddedToCart string int
  | CartEmpty
  | CartView "(int \<times> string \<times> 'p \<times> int) list"
  | OrdersEmpty
  | OrdersView nat "(int \<times> cell option \<times> 'p order_line list) list" "page_button list"
  | OrderPlaced "(int \<times> string \<times> 'p \<times> int) list"
  | OrderFailed
  | CheckoutCartEmpty
  | CartCleared
  | Cancelled
  | ErrorView

subsection \<open>Handlers\<close>

text \<open>\<open>xs[i:j]\<close>\<close>

definition py_slice :: "'a list \<Rightarrow> int \<Rightarrow> int \<Rightarrow> 'a list" where
  "py_slice xs i j =
     (let n = int (length xs);
          a = (if i < 0 then max (i + n) 0 else min i n);
          b = (if j < 0 then max (j + n) 0 else min j n)
      in take (nat (b - a)) (drop (nat a) xs))"

text \<open>\<open>int(query.data.split('_')[1])\<close>\<close>

definition callback_number :: "(string \<Rightarrow> int option) \<Rightarrow> string \<Rightarrow> py_error + int" where
  "callback_number int_of data =
     (case str_split (CHR ''_'') data of
        a # b # parts \<Rightarrow> (case int_of b of None \<Rightarrow> Inl ValueError | Some n \<Rightarrow> Inr n)
      | _ \<Rightarrow> Inl IndexError)"

definition show_main_menu :: "state \<Rightarrow> string \<Rightarrow> string \<Rightarrow> 'p view list \<times> state" where
  "show_main_menu s first_name last_name = ([MainMenu first_name], s)"

definition show_catalog :: "(string \<Rightarrow> 'p option) \<Rightarrow> state \<Rightarrow> 'p view list \<times> state" where
  "show_catalog float_of s =
     (let ps = get_all_products float_of (products s)
      in if ps = [] then ([CatalogEmpty], s) else ([CatalogView ps], s))"

definition show_product_details ::
  "(string \<Rightarrow> 'p option) \<Rightarrow> (string \<Rightarrow> int option) \<Rightarrow> state \<Rightarrow> int \<Rightarrow> string
     \<Rightarrow> py_error + 'p view list \<times> state" where
  "show_product_details float_of int_of s uid data =
     (case callback_number int_of data of
        Inl e \<Rightarrow> Inl e
      | Inr chosen \<Rightarrow>
          (case get_product_by_id float_of (products s) chosen of
             None \<Rightarrow> Inr ([ProductNotFound], s)
           | Some product \<Rightarrow>
               Inr ([ProductDetails product],
                    s\<lparr>user_data := (user_data s)
                         (uid := (user_data s uid)(''selected_product'' \<mapsto> chosen))\<rparr>)))"

definition add_to_cart_handler ::
  "(string \<Rightarrow> 'p option) \<Rightarrow> (string \<Rightarrow> int option) \<Rightarrow> state \<Rightarrow> int \<Rightarrow> string
     \<Rightarrow> py_error + 'p view list \<times> state" where
  "add_to_cart_handler float_of int_of s uid data =
     (case callback_number int_of data of
        Inl e \<Rightarrow> Inl e
      | Inr q \<Rightarrow>
          (case user_data s uid ''selected_product'' of
             None \<Rightarrow> Inr ([ProductNotSelected], s)
           | Some chosen \<Rightarrow>
               if chosen = 0 then Inr ([ProductNotSelected], s)
               else
                 (case get_product_by_id float_of (products s) chosen of
                    None \<Rightarrow> Inr ([ProductNotFound], s)
                  | Some product \<Rightarrow>
                      Inr ([AddedToCart (name product) q],
                           s\<lparr>db := add_to_cart (db s) uid chosen q\<rparr>))))"

definition show_cart :: "(string \<Rightarrow> 'p option) \<Rightarrow> state \<Rightarrow> int \<Rightarrow> 'p view list \<times> state" where
  "show_cart float_of s uid =
     (let cart = get_cart_items float_of (products s) (db s) uid
      in if cart = [] then ([CartEmpty], s) else ([CartView cart], s))"

text \<open>
  One item of an order in the orders view: the first catalog product whose name equals
  the product cell; \<open>product.price * item['quantity']\<close> raises when the quantity cell
  holds a string.
\<close>

definition order_line :: "'p product list \<Rightarrow> cell \<times> cell \<Rightarrow> py_error + 'p order_line" where
  "order_line ps item =
     (case find (\<lambda>p. Str (name p) = fst item) ps of
        None \<Rightarrow> Inr (fst item, snd item, None)
      | Some p \<Rightarrow>
          (case snd item of
             Num n \<Rightarrow> Inr (fst item, snd item, Some (price p))
           | Str t \<Rightarrow> Inl TypeError))"

fun order_lines :: "'p product list \<Rightarrow> (cell \<times> cell) list \<Rightarrow> py_error + 'p order_line list" where
  "order_lines ps [] = Inr []"
| "order_lines ps (item # rest) =
     (case order_line ps item of
        Inl e \<Rightarrow> Inl e
      | Inr l \<Rightarrow> (case order_lines ps rest of Inl e \<Rightarrow> Inl e | Inr ls \<Rightarrow> Inr (l # ls)))"

text \<open>The loop over \<open>enumerate(current_orders, start_idx + 1)\<close>.\<close>

fun render_orders ::
  "'p product list \<Rightarrow> (int \<times> order) list
     \<Rightarrow> py_error + (int \<times> cell option \<times> 'p order_line list) list" where
  "render_orders ps [] = Inr []"
| "render_orders ps ((i, order) # rest) =
     (case order_lines ps (items order) of
        Inl e \<Rightarrow> Inl e
      | Inr ls \<Rightarrow>
          (case render_orders ps rest of
             Inl e \<Rightarrow> Inl e
           | Inr rs \<Rightarrow> Inr ((i, date order, ls) # rs)))"

text \<open>
  \<open>show_user_orders\<close>. The source computes \<open>total_pages\<close> as
  \<open>(len(orders) + orders_per_page - 1)\<close>; the next line, \<open>orders_per_page\<close> alone, is
  an expression statement without effect.
\<close>

definition show_user_orders ::
  "(string \<Rightarrow> 'p option) \<Rightarrow> state \<Rightarrow> int \<Rightarrow> string \<Rightarrow> string
     \<Rightarrow> py_error + 'p view list \<times> state" where
  "show_user_orders float_of s uid first_name last_name =
     (let full_name = first_name @ '' '' @ last_name;
          os = get_user_orders full_name (orders s)
      in if os = [] then Inr ([OrdersEmpty], s)
         else
           (let page = (case user_data s uid ''orders_page'' of None \<Rightarrow> 0 | Some n \<Rightarrow> n);
                orders_per_page = 3;
                total_pages = int (length os) + orders_per_page - 1;
                start_idx = page * orders_per_page;
                end_idx = start_idx + orders_per_page;
                current_orders = py_slice os start_idx end_idx
            in case render_orders (get_all_products float_of (products s))
                      (py_enumerate current_orders (start_idx + 1)) of
                 Inl e \<Rightarrow> Inl e
               | Inr rendered \<Rightarrow>
                   Inr ([OrdersView (length os) rendered
                           ((if page > 0 then [PrevPage (page - 1)] else []) @
                            [CurrentPage (page + 1) total_pages] @
                            (if page < total_pages - 1 then [NextPage (page + 1)] else []))],
                        s)))"

definition checkout ::
  "(string \<Rightarrow> 'p option) \<Rightarrow> world \<Rightarrow> state \<Rightarrow> int \<Rightarrow> 'p view list \<times> state" where
  "checkout float_of w s uid =
     (case get_user (db s) uid of
        None \<Rightarrow> ([UserNotFound], s)
      | Some (first_name, last_name) \<Rightarrow>
          (let full_name = first_name @ '' '' @ last_name;
               cart = get_cart_items float_of (products s) (db s) uid
           in if cart = [] then ([CheckoutCartEmpty], s)
              else
                (let (success, file') = add_order w (orders s) full_name cart
                 in if success
                    then ([OrderPlaced cart], s\<lparr>orders := file', db := clear_cart (db s) uid\<rparr>)
                    else ([OrderFailed], s\<lparr>orders := file'\<rparr>))))"

text \<open>The handler \<open>clear_cart\<close> (the method of the same name is \<open>clear_cart\<close> above).\<close>

definition clear_cart_handler :: "state \<Rightarrow> int \<Rightarrow> 'p view list \<times> state" where
  "clear_cart_handler s uid = ([CartCleared], s\<lparr>db := clear_cart (db s) uid\<rparr>)"

text \<open>
  \<open>handle_callback\<close>: the chain of comparisons on \<open>query.data\<close>, in the source's
  order. Data that no branch matches produces no view and changes nothing.
\<close>

definition handle_callback ::
  "(string \<Rightarrow> 'p option) \<Rightarrow> (string \<Rightarrow> int option) \<Rightarrow> world \<Rightarrow> state \<Rightarrow> int \<Rightarrow> string
     \<Rightarrow> py_error + 'p view list \<times> state" where
  "handle_callback float_of int_of w s uid data =
     (case get_user (db s) uid of
        None \<Rightarrow> Inr ([UserNotFound], s)
      | Some (first_name, last_name) \<Rightarrow>
          if data = ''catalog'' then Inr (show_catalog float_of s)
          else if data = ''cart'' then Inr (show_cart float_of s uid)
          else if data = ''orders'' then show_user_orders float_of s uid first_name last_name
          else if data = ''back_to_menu'' then Inr (show_main_menu s first_name last_name)
          else if startswith data ''product_'' then show_product_details float_of int_of s uid data
          else if startswith data ''qty_'' then add_to_cart_handler float_of int_of s uid data
          else if data = ''checkout'' then Inr (checkout float_of w s uid)
          else if data = ''clear_cart'' then Inr (clear_cart_handler s uid)
          else Inr ([], s))"

definition start :: "state \<Rightarrow> int \<Rightarrow> conv \<times> 'p view list \<times> state" where
  "start s uid =
     (case get_user (db s) uid of
        Some (first_name, last_name) \<Rightarrow> (MAIN_MENU, show_main_menu s first_name last_name)
      | None \<Rightarrow> (GET_NAME, [NamePrompt], s))"

definition get_user_name :: "state \<Rightarrow> int \<Rightarrow> string \<Rightarrow> conv \<times> 'p view list \<times> state" where
  "get_user_name s uid msg =
     (let full_name = str_strip msg;
          name_parts = str_words [] full_name
      in case name_parts of
           first_name # p # ps \<Rightarrow>
             (let last_name = str_join (p # ps);
                  s' = s\<lparr>db := add_user (db s) uid first_name last_name\<rparr>
              in (MAIN_MENU,
                  RegistrationDone first_name # fst (show_main_menu s' first_name last_name),
                  s'))
         | _ \<Rightarrow> (GET_NAME, [NameInvalid], s))"

definition cancel :: "state \<Rightarrow> int \<Rightarrow> conv \<times> 'p view list \<times> state" where
  "cancel s uid = (END_CONVERSATION, [Cancelled], s)"

text \<open>
  An update is one call of a handler registered in \<open>main\<close>: \<open>start\<close>,
  \<open>get_user_name\<close>, \<open>handle_callback\<close> or \<open>cancel\<close>, for a user. Which updates the
  library routes to which handler is not modelled: every sequence of handler calls is
  allowed. A handler that raises is followed by \<open>error_handler\<close>, which replies with
  the error view.
\<close>

datatype update = Start int | Message int string | Callback int string | Cancel int

definition process_update ::
  "(string \<Rightarrow> 'p option) \<Rightarrow> (string \<Rightarrow> int option) \<Rightarrow> state \<Rightarrow> world \<times> update
     \<Rightarrow> 'p view list \<times> state" where
  "process_update float_of int_of s wu =
     (case snd wu of
        Start uid \<Rightarrow> snd (start s uid)
      | Message uid msg \<Rightarrow> snd (get_user_name s uid msg)
      | Cancel uid \<Rightarrow> snd (cancel s uid)
      | Callback uid data \<Rightarrow>
          (case handle_callback float_of int_of (fst wu) s uid data of
             Inl e \<Rightarrow> ([ErrorView], s)
           | Inr r \<Rightarrow> r))"

text \<open>A run: the updates in order, with all the views emitted.\<close>

fun run ::
  "(string \<Rightarrow> 'p option) \<Rightarrow> (string \<Rightarrow> int option) \<Rightarrow> state \<Rightarrow> (world \<times> update) list
     \<Rightarrow> 'p view list \<times> state" where
  "run float_of int_of s [] = ([], s)"
| "run float_of int_of s (wu # rest) =
     (let (vs, s') = process_update float_of int_of s wu;
          (ws, s'') = run float_of int_of s' rest
      in (vs @ ws, s''))"

subsection \<open>Vocabulary of the properties\<close>

text \<open>
  What \<open>get_all_products\<close> does with one line: it skips a line that is blank after
  \<open>strip\<close> or has no delimiter; from any other line it builds the product
  \<open>line_product\<close>, unless the line has a single delimiter or a price that \<open>float()\<close>
  refuses, and then the line raises.
\<close>

definition line_skipped :: "string \<Rightarrow> bool" where
  "line_skipped raw = (str_strip raw = [] \<or> CHR ''|'' \<notin> set (str_strip raw))"

definition line_product :: "(string \<Rightarrow> 'p option) \<Rightarrow> int \<Rightarrow> string \<Rightarrow> 'p product option" where
  "line_product float_of idx raw =
     (case str_split_max (CHR ''|'') 2 (str_strip raw) of
        [nm, pr, ds] \<Rightarrow>
          (case float_of (str_strip pr) of
             None \<Rightarrow> None
           | Some v \<Rightarrow>
               Some \<lparr>pid = idx, name = str_strip nm, price = v, description = str_strip ds\<rparr>)
      | _ \<Rightarrow> None)"

definition line_raises :: "(string \<Rightarrow> 'p option) \<Rightarrow> string \<Rightarrow> bool" where
  "line_raises float_of raw = (\<not> line_skipped raw \<and> line_product float_of 0 raw = None)"

text \<open>The numbered lines up to the first one that raises.\<close>

definition lines_read :: "(string \<Rightarrow> 'p option) \<Rightarrow> string list \<Rightarrow> (int \<times> string) list" where
  "lines_read float_of lines =
     takeWhile (\<lambda>(idx, raw). \<not> line_raises float_of raw) (py_enumerate lines 1)"

text \<open>The products built from numbered lines, the skipped lines left out.\<close>

definition line_products ::
  "(string \<Rightarrow> 'p option) \<Rightarrow> (int \<times> string) list \<Rightarrow> 'p product list" where
  "line_products float_of pairs =
     List.map_filter
       (\<lambda>(idx, raw). if line_skipped raw then None else line_product float_of idx raw) pairs"

text \<open>
  The page an orders view shows, read off the label \<open>k/t\<close> of its pagination row as
  \<open>k - 1\<close>; other views show no page.
\<close>

fun label_page :: "page_button list \<Rightarrow> int option" where
  "label_page [] = None"
| "label_page (CurrentPage k t # bs) = Some (k - 1)"
| "label_page (b # bs) = label_page bs"

definition page_index :: "'p view \<Rightarrow> int option" where
  "page_index v = (case v of OrdersView n rs bs \<Rightarrow> label_page bs | _ \<Rightarrow> None)"

definition is_orders_view :: "'p view \<Rightarrow> bool" where
  "is_orders_view v = (case v of OrdersView n rs bs \<Rightarrow> True | _ \<Rightarrow> False)"

subsection \<open>Concrete inputs\<close>

text \<open>
  The header row that \<open>_ensure_excel_file\<close> writes (ten cells; the Cyrillic texts are
  given in English, the reader never looks at them), a one-line catalog, and the state of
  the bot after its first start on that catalog: no user, no cart row, a workbook with
  the header only, empty \<open>user_data\<close>.
\<close>

definition header_row :: row where
  "header_row =
     map (\<lambda>t. Some (Str t))
       [''Date'', ''Name'', ''Item 1'', ''Qty 1'', ''Item 2'', ''Qty 2'',
        ''Item 3'', ''Qty 3'', ''Item 4'', ''Qty 4'']"

definition widget_catalog :: products_file where
  "widget_catalog = Some [''Widget|10.00|desc'']"

definition fresh_state :: state where
  "fresh_state =
     \<lparr>db = \<lparr>users = Map.empty, cart_items = []\<rparr>,
      products = widget_catalog,
      orders = Workbook [header_row],
      user_data = (\<lambda>uid. Map.empty)\<rparr>"

definition noon :: world where
  "noon = \<lparr>now = ''2024-05-01 12:00:00'', save_ok = True\<rparr>"


text \<open>
  The state after user 7 has registered as Ann Lee and placed one order: one record in
  the ledger, an empty cart.
\<close>

definition one_order_state :: state where
  "one_order_state =
     \<lparr>db = \<lparr>users = [7 \<mapsto> (''Ann'', ''Lee'')], cart_items = []\<rparr>,
      products = widget_catalog,
      orders = Workbook
        [header_row,
         [Some (Str ''2024-05-01 12:00:00''), Some (Str ''Ann Lee''),
          Some (Str ''Widget''), Some (Num 3)]],
      user_data = (\<lambda>uid. Map.empty)\<rparr>"


section \<open>Verification\<close>

subsection \<open>The catalog loader\<close>


lemma line_product_None_any: "line_product f i raw = None \<longleftrightarrow> line_product f j raw = None"
  by (auto simp: line_product_def split: list.splits option.splits)

lemma products_loop_char:
  "snd (products_loop f pairs acc) =
     acc @ line_products f (takeWhile (\<lambda>(i, raw). \<not> line_raises f raw) pairs)"
proof (induction pairs arbitrary: acc)
  case Nil
  show ?case by (simp add: line_products_def)
next
  case (Cons a pairs)
  obtain i raw where a: "a = (i, raw)" by (cases a)
  show ?case
  proof (cases "line_skipped raw")
    case True
    then show ?thesis
      using Cons.IH[of acc] by (auto simp: a line_skipped_def line_raises_def line_products_def)
  next
    case False
    show ?thesis
    proof (cases "line_product f i raw")
      case None
      then have "line_raises f raw"
        using False line_product_None_any[of f i raw 0] by (simp add: line_raises_def)
      moreover have "snd (products_loop f (a # pairs) acc) = acc"
        using False None
        by (auto simp: a line_skipped_def line_product_def Let_def split: list.splits option.splits)
      ultimately show ?thesis by (simp add: a line_products_def)
    next
      case (Some p)
      then have nr: "\<not> line_raises f raw"
        using line_product_None_any[of f i raw 0] by (simp add: line_raises_def)
      have "snd (products_loop f (a # pairs) acc) = snd (products_loop f pairs (acc @ [p]))"
        using False Some
        by (auto simp: a line_skipped_def line_product_def Let_def split: list.splits option.splits)
      then show ?thesis
        using nr False Some Cons.IH[of "acc @ [p]"] by (simp add: a line_products_def)
    qed
  qed
qed

lemma get_all_products_char:
  "get_all_products f (Some lines) = line_products f (lines_read f lines)"
  using products_loop_char[of f "py_enumerate lines 1" "[]"]
  by (simp add: get_all_products_def lines_read_def)

lemma py_enumerate_append:
  "py_enumerate (xs @ ys) k = py_enumerate xs k @ py_enumerate ys (k + int (length xs))"
  by (induction xs arbitrary: k) (auto simp: algebra_simps)












text \<open>
  Claim C4, as amended. \<open>get_all_products\<close> leaves out the lines that are blank or have
  no delimiter and goes on with the lines after them. A line that has the delimiter but not
  two of them, or a price that \<open>float()\<close> refuses, ends the load: the result is built
  from the lines before the first such line, so a store with such a line loads as the
  lines before it alone. No exception leaves the function.
\<close>

theorem malformed_line_ends_load:
  "get_all_products f (Some lines) = line_products f (lines_read f lines) \<and>
   (line_raises f raw \<longrightarrow>
      get_all_products f (Some (pre @ raw # post)) = get_all_products f (Some pre))"
proof (intro conjI impI)
  show "get_all_products f (Some lines) = line_products f (lines_read f lines)"
    by (rule get_all_products_char)
next
  assume r: "line_raises f raw"
  have "lines_read f (pre @ raw # post) = lines_read f pre"
    using r by (simp add: lines_read_def py_enumerate_append takeWhile_tail)
  then show "get_all_products f (Some (pre @ raw # post)) = get_all_products f (Some pre)"
    by (simp add: get_all_products_char)
qed

theorem malformed_line_ends_load_witness:
  "line_raises plain_float ''Gadget|abc|x'' \<and>
   get_all_products plain_float
     (Some ([''none here'', ''Widget|10.00|desc''] @ ''Gadget|abc|x'' # [''Cable|5.50|usb''])) =
     [\<lparr>pid = 2, name = ''Widget'', price = 10, description = ''desc''\<rparr>]"
proof -
  have r: "line_raises plain_float ''Gadget|abc|x''"
    by code_simp
  have e: "get_all_products plain_float (Some [''none here'', ''Widget|10.00|desc'']) =
     [\<lparr>pid = 2, name = ''Widget'', price = 10, description = ''desc''\<rparr>]"
    by code_simp
  show ?thesis
    using r e
      malformed_line_ends_load[of plain_float "[]" "''Gadget|abc|x''"
        "[''none here'', ''Widget|10.00|desc'']" "[''Cable|5.50|usb'']"]
    by simp
qed

text \<open>
  The claim as stated fails: the valid line after a line with a non-numeric price, and the
  one after a line with a single delimiter, are not loaded.
\<close>

theorem malformed_line_truncates_counterexample:
  "get_all_products plain_float
     (Some [''Widget|10.00|desc'', ''Gadget|abc|x'', ''Cable|5.50|usb'']) =
     [\<lparr>pid = 1, name = ''Widget'', price = 10, description = ''desc''\<rparr>] \<and>
   get_all_products plain_float (Some [''Gadget|12'', ''Cable|5.50|usb'']) = []"
  by code_simp

subsection \<open>The cart\<close>













subsection \<open>The order ledger\<close>





subsection \<open>Checkout\<close>



subsection \<open>Store failures\<close>




subsection \<open>Quantity selection without a selected product\<close>

lemma startswith_append: "startswith s pre \<Longrightarrow> \<exists>rest. s = pre @ rest"
  unfolding startswith_def by (metis append_take_drop_id)

text \<open>
  Claim C8. When callback data starting with \<open>qty_\<close> arrives and \<open>user_data\<close> of
  the user has no \<open>selected_product\<close>, exactly one view is emitted and it is an error
  view: "user not found" for an unregistered user, the reply of \<open>error_handler\<close> when
  \<open>int()\<close> refuses the number, "product not selected" otherwise. The state after the
  update is the state before it; in particular the cart table is unchanged.
\<close>

theorem stale_quantity_selection:
  assumes q: "startswith data ''qty_''"
    and none: "user_data s uid ''selected_product'' = None"
  shows "process_update float_of int_of s (w, Callback uid data) =
           ((if get_user (db s) uid = None then [UserNotFound]
             else case callback_number int_of data of
                    Inl e \<Rightarrow> [ErrorView]
                  | Inr n \<Rightarrow> [ProductNotSelected]),
            s) \<and>
         cart_items (db (snd (process_update float_of int_of s (w, Callback uid data)))) =
           cart_items (db s)"
proof -
  obtain rest where d: "data = ''qty_'' @ rest"
    using startswith_append[OF q] by blast
  have h: "handle_callback float_of int_of w s uid data =
      (case get_user (db s) uid of
         None \<Rightarrow> Inr ([UserNotFound], s)
       | Some u \<Rightarrow> add_to_cart_handler float_of int_of s uid data)"
    by (auto simp: handle_callback_def d startswith_def split: option.splits)
  have a: "add_to_cart_handler float_of int_of s uid data =
      (case callback_number int_of data of Inl e \<Rightarrow> Inl e | Inr n \<Rightarrow> Inr ([ProductNotSelected], s))"
    using none by (simp add: add_to_cart_handler_def split: sum.splits)
  have p: "process_update float_of int_of s (w, Callback uid data) =
           ((if get_user (db s) uid = None then [UserNotFound]
             else case callback_number int_of data of
                    Inl e \<Rightarrow> [ErrorView]
                  | Inr n \<Rightarrow> [ProductNotSelected]),
            s)"
    by (auto simp: process_update_def h a split: option.splits sum.splits)
  then show ?thesis by simp
qed

theorem stale_quantity_selection_witness:
  "startswith ''qty_5'' ''qty_'' \<and>
   user_data one_order_state 7 ''selected_product'' = None \<and>
   process_update plain_float plain_int one_order_state (noon, Callback 7 ''qty_5'') =
     ([ProductNotSelected], one_order_state) \<and>
   cart_items (db (snd (process_update plain_float plain_int one_order_state
                          (noon, Callback 7 ''qty_5'')))) = cart_items (db one_order_state)"
proof -
  have q: "startswith ''qty_5'' ''qty_''" by (simp add: startswith_def)
  have n: "user_data one_order_state 7 ''selected_product'' = None"
    by (simp add: one_order_state_def)
  have u: "get_user (db one_order_state) 7 \<noteq> None"
    by (simp add: one_order_state_def get_user_def)
  have c: "callback_number plain_int ''qty_5'' = Inr 5" by code_simp
  show ?thesis
    using q n u c stale_quantity_selection[OF q n, of plain_float plain_int noon] by simp
qed

subsection \<open>The pagination cursor\<close>

text \<open>
  No handler writes the key \<open>orders_page\<close>: \<open>show_product_details\<close> is the only
  one that writes \<open>user_data\<close>, and it writes \<open>selected_product\<close>.
\<close>

lemma show_product_details_page:
  "show_product_details f i s uid data = Inr (vs, s') \<Longrightarrow>
   user_data s' u ''orders_page'' = user_data s u ''orders_page'' \<and>
   (\<forall>v \<in> set vs. \<not> is_orders_view v)"
  by (auto simp: show_product_details_def is_orders_view_def split: sum.splits option.splits)

lemma add_to_cart_handler_page:
  "add_to_cart_handler f i s uid data = Inr (vs, s') \<Longrightarrow>
   user_data s' = user_data s \<and> (\<forall>v \<in> set vs. \<not> is_orders_view v)"
  by (auto simp: add_to_cart_handler_def is_orders_view_def split: sum.splits option.splits if_splits)

lemma show_user_orders_page:
  "show_user_orders f s uid first_name last_name = Inr (vs, s') \<Longrightarrow>
   user_data s uid ''orders_page'' = None \<Longrightarrow>
   s' = s \<and> (\<forall>v \<in> set vs. is_orders_view v \<longrightarrow> page_index v = Some 0)"
  by (auto simp: show_user_orders_def Let_def is_orders_view_def page_index_def
      split: sum.splits if_splits)

lemma checkout_page:
  "checkout f w s uid = (vs, s') \<Longrightarrow>
   user_data s' = user_data s \<and> (\<forall>v \<in> set vs. \<not> is_orders_view v)"
  by (auto simp: checkout_def Let_def is_orders_view_def case_prod_unfold
      split: option.splits if_splits)

lemma handle_callback_page:
  assumes "handle_callback f i w s uid data = Inr (vs, s')"
    and "\<forall>u. user_data s u ''orders_page'' = None"
  shows "(\<forall>u. user_data s' u ''orders_page'' = None) \<and>
         (\<forall>v \<in> set vs. is_orders_view v \<longrightarrow> page_index v = Some 0)"
proof (cases "get_user (db s) uid")
  case None
  then show ?thesis using assms by (auto simp: handle_callback_def is_orders_view_def)
next
  case (Some names)
  obtain fn ln where n: "names = (fn, ln)" by (cases names)
  consider (cat) "data = ''catalog''" | (cart) "data = ''cart''" | (ord) "data = ''orders''"
    | (menu) "data = ''back_to_menu''"
    | (prod) "data \<notin> {''catalog'', ''cart'', ''orders'', ''back_to_menu''}" "startswith data ''product_''"
    | (qty) "data \<notin> {''catalog'', ''cart'', ''orders'', ''back_to_menu''}" "\<not> startswith data ''product_''"
        "startswith data ''qty_''"
    | (rest) "data \<notin> {''catalog'', ''cart'', ''orders'', ''back_to_menu''}" "\<not> startswith data ''product_''"
        "\<not> startswith data ''qty_''"
    by blast
  then show ?thesis
  proof cases
    case cat
    then show ?thesis using assms Some n
      by (auto simp: handle_callback_def show_catalog_def Let_def is_orders_view_def split: if_splits)
  next
    case cart
    then show ?thesis using assms Some n
      by (auto simp: handle_callback_def show_cart_def Let_def is_orders_view_def split: if_splits)
  next
    case ord
    then have "show_user_orders f s uid fn ln = Inr (vs, s')"
      using assms(1) Some n by (simp add: handle_callback_def)
    from show_user_orders_page[OF this] assms(2) show ?thesis by auto
  next
    case menu
    then show ?thesis using assms Some n
      by (auto simp: handle_callback_def show_main_menu_def is_orders_view_def)
  next
    case prod
    then have "show_product_details f i s uid data = Inr (vs, s')"
      using assms(1) Some n by (simp add: handle_callback_def)
    from show_product_details_page[OF this] assms(2) show ?thesis by auto
  next
    case qty
    then have "add_to_cart_handler f i s uid data = Inr (vs, s')"
      using assms(1) Some n by (simp add: handle_callback_def)
    from add_to_cart_handler_page[OF this] assms(2) show ?thesis by auto
  next
    case rest
    show ?thesis
    proof (cases "data = ''checkout''")
      case True
      then have "checkout f w s uid = (vs, s')"
        using assms(1) Some n rest by (simp add: handle_callback_def)
      from checkout_page[OF this] assms(2) show ?thesis by auto
    next
      case False
      then show ?thesis using assms Some n rest
        by (auto simp: handle_callback_def clear_cart_handler_def is_orders_view_def split: if_splits)
    qed
  qed
qed

lemma process_update_page:
  assumes "process_update f i s wu = (vs, s')"
    and "\<forall>u. user_data s u ''orders_page'' = None"
  shows "(\<forall>u. user_data s' u ''orders_page'' = None) \<and>
         (\<forall>v \<in> set vs. is_orders_view v \<longrightarrow> page_index v = Some 0)"
proof (cases "snd wu")
  case (Start uid)
  then show ?thesis using assms
    by (auto simp: process_update_def start_def show_main_menu_def is_orders_view_def
        split: option.splits)
next
  case (Message uid msg)
  then show ?thesis using assms
    by (auto simp: process_update_def get_user_name_def show_main_menu_def Let_def
        is_orders_view_def split: list.splits)
next
  case (Cancel uid)
  then show ?thesis using assms
    by (auto simp: process_update_def cancel_def is_orders_view_def)
next
  case (Callback uid data)
  show ?thesis
  proof (cases "handle_callback f i (fst wu) s uid data")
    case (Inl e)
    then show ?thesis using assms Callback
      by (auto simp: process_update_def is_orders_view_def)
  next
    case (Inr r)
    then have "handle_callback f i (fst wu) s uid data = Inr (vs, s')"
      using assms(1) Callback by (simp add: process_update_def)
    from handle_callback_page[OF this assms(2)] show ?thesis .
  qed
qed

lemma run_page:
  "run f i s us = (vs, s') \<Longrightarrow> \<forall>u. user_data s u ''orders_page'' = None \<Longrightarrow>
   (\<forall>u. user_data s' u ''orders_page'' = None) \<and>
   (\<forall>v \<in> set vs. is_orders_view v \<longrightarrow> page_index v = Some 0)"
proof (induction us arbitrary: s vs s')
  case Nil
  then show ?case by simp
next
  case (Cons wu us)
  obtain v1 s1 where p: "process_update f i s wu = (v1, s1)" by (cases "process_update f i s wu")
  obtain v2 s2 where r: "run f i s1 us = (v2, s2)" by (cases "run f i s1 us")
  have vs: "vs = v1 @ v2" "s' = s2" using Cons.prems(1) p r by auto
  from process_update_page[OF p Cons.prems(2)]
  have i1: "\<forall>u. user_data s1 u ''orders_page'' = None"
    and w1: "\<forall>v \<in> set v1. is_orders_view v \<longrightarrow> page_index v = Some 0" by auto
  from Cons.IH[OF r i1] show ?case using vs w1 by auto
qed

lemma orders_page_token_ignored:
  assumes "startswith data ''orders_page_''"
  shows "handle_callback f i w s uid data =
     Inr ((if get_user (db s) uid = None then [UserNotFound] else []), s)"
proof -
  obtain rest where d: "data = ''orders_page_'' @ rest"
    using startswith_append[OF assms] by blast
  show ?thesis
    by (auto simp: handle_callback_def d startswith_def split: option.splits)
qed

text \<open>
  Claim C10. From a state in which no user's \<open>user_data\<close> holds \<open>orders_page\<close>
  (as at the start of the bot), after every sequence of handler calls no user's
  \<open>user_data\<close> holds it, and every orders view emitted on the way shows page index 0.
  Callback data starting with \<open>orders_page_\<close> matches no branch of
  \<open>handle_callback\<close>: for a registered user it emits no view and changes nothing.
\<close>

theorem orders_page_never_written:
  assumes "\<forall>u. user_data s u ''orders_page'' = None"
  shows "(\<forall>u. user_data (snd (run float_of int_of s us)) u ''orders_page'' = None) \<and>
         (\<forall>v \<in> set (fst (run float_of int_of s us)). is_orders_view v \<longrightarrow> page_index v = Some 0) \<and>
         (startswith data ''orders_page_'' \<longrightarrow>
            process_update float_of int_of s (w, Callback uid data) =
              ((if get_user (db s) uid = None then [UserNotFound] else []), s))"
  using run_page[of float_of int_of s us "fst (run float_of int_of s us)" "snd (run float_of int_of s us)"]
    assms orders_page_token_ignored[of data float_of int_of w s uid]
  by (auto simp: process_update_def)

theorem orders_page_never_written_witness:
  "(\<forall>u. user_data one_order_state u ''orders_page'' = None) \<and>
   (\<forall>u. user_data (snd (run plain_float plain_int one_order_state
            [(noon, Callback 7 ''orders''), (noon, Callback 7 ''orders_page_1''),
             (noon, Callback 7 ''orders'')])) u ''orders_page'' = None) \<and>
   fst (run plain_float plain_int one_order_state
            [(noon, Callback 7 ''orders''), (noon, Callback 7 ''orders_page_1''),
             (noon, Callback 7 ''orders'')]) =
     [OrdersView 1 [(1, Some (Str ''2024-05-01 12:00:00''), [(Str ''Widget'', Num 3, Some 10)])]
        [CurrentPage 1 3, NextPage 1],
      OrdersView 1 [(1, Some (Str ''2024-05-01 12:00:00''), [(Str ''Widget'', Num 3, Some 10)])]
        [CurrentPage 1 3, NextPage 1]] \<and>
   page_index (OrdersView 1 [(1, Some (Str ''2024-05-01 12:00:00''), [(Str ''Widget'', Num 3, Some (10 :: rat))])]
        [CurrentPage 1 3, NextPage 1]) = Some 0 \<and>
   startswith ''orders_page_1'' ''orders_page_'' \<and>
   process_update plain_float plain_int one_order_state (noon, Callback 7 ''orders_page_1'') =
     ([], one_order_state)"
proof -
  let ?us = "[(noon, Callback 7 ''orders''), (noon, Callback 7 ''orders_page_1''),
             (noon, Callback 7 ''orders'')]"
  let ?v = "OrdersView 1 [(1, Some (Str ''2024-05-01 12:00:00''), [(Str ''Widget'', Num 3, Some (10 :: rat))])]
        [CurrentPage 1 3, NextPage 1]"
  have i: "\<forall>u. user_data one_order_state u ''orders_page'' = None"
    by (simp add: one_order_state_def)
  have st: "startswith ''orders_page_1'' ''orders_page_''" by (simp add: startswith_def)
  have u: "get_user (db one_order_state) 7 \<noteq> None"
    by (simp add: one_order_state_def get_user_def)
  have vs: "fst (run plain_float plain_int one_order_state ?us) = [?v, ?v]"
    by code_simp
  note t = orders_page_never_written[OF i, of plain_float plain_int ?us "''orders_page_1''" noon 7]
  have a: "\<forall>u. user_data (snd (run plain_float plain_int one_order_state ?us)) u ''orders_page'' = None"
    using t by blast
  have "?v \<in> set (fst (run plain_float plain_int one_order_state ?us))"
    using vs by simp
  moreover have "is_orders_view ?v" by (simp add: is_orders_view_def)
  ultimately have b: "page_index ?v = Some 0" using t by blast
  have c: "process_update plain_float plain_int one_order_state (noon, Callback 7 ''orders_page_1'') =
     ([], one_order_state)"
    using t st u by simp
  show ?thesis using i a vs b st c by blast
qed

subsection \<open>The number of pages\<close>

text \<open>
  Claim C2, evaluated at one order. The claim gives \<open>ceil(1/3) = 1\<close> page. The source
  computes \<open>total_pages\<close> as \<open>len(orders) + orders_per_page - 1\<close>, which is 3: the
  view carries the label \<open>1/3\<close> and a button to page 2.
\<close>

theorem one_order_shown_as_three_pages:
  "fst (process_update plain_float plain_int one_order_state (noon, Callback 7 ''orders'')) =
     [OrdersView 1
        [(1, Some (Str ''2024-05-01 12:00:00''), [(Str ''Widget'', Num 3, Some 10)])]
        [CurrentPage 1 3, NextPage 1]]"
  by code_simp

end
